theory Spec2Isabelle
  imports Main
begin

section \<open>Text\<close>

text \<open>
  A Python \<open>str\<close> is carried as the list of the bytes of its UTF-8 encoding, so an ASCII
  character is one \<open>char\<close> and any other code point is a lead byte followed by
  continuation bytes, all above 127.
  \<open>lower\<close> is \<open>str.lower\<close> on the ASCII letters; bytes above 127 are left as they are
  (Python also maps letters outside ASCII; it is used only to look for an ASCII word).
\<close>

definition lower_char :: "char \<Rightarrow> char" where
  "lower_char c =
     (let n = (of_char c :: nat) in if 65 \<le> n \<and> n \<le> 90 then char_of (n + 32) else c)"

definition upper_char :: "char \<Rightarrow> char" where
  "upper_char c =
     (let n = (of_char c :: nat) in if 97 \<le> n \<and> n \<le> 122 then char_of (n - 32) else c)"

definition lower :: "string \<Rightarrow> string" where
  "lower s = map lower_char s"

text \<open>
  \<open>str.upper\<close> maps every code point by itself, to one code point or to several (the
  sharp s becomes \<open>SS\<close>). \<open>code_points\<close> cuts a text into its code points: each begins
  at a byte that is not a continuation byte (\<open>0x80\<close> to \<open>0xBF\<close>).
\<close>

definition is_continuation :: "char \<Rightarrow> bool" where
  "is_continuation c = (128 \<le> (of_char c :: nat) \<and> (of_char c :: nat) < 192)"

function code_points :: "string \<Rightarrow> string list" where
  "code_points [] = []"
| "code_points (c # cs) =
     (c # takeWhile is_continuation cs) # code_points (dropWhile is_continuation cs)"
  by pat_completeness auto
termination
  by (relation "measure length") (simp_all add: length_dropWhile_le less_Suc_eq_le)

text \<open>
  The upper-case mapping of the code points outside ASCII is a table of the Python
  interpreter (Unicode's, in the version it carries). It is a parameter: a function from
  the bytes of a code point to the bytes of its upper-case mapping. On ASCII the mapping
  is fixed: the letters \<open>a\<close> to \<open>z\<close> become \<open>A\<close> to \<open>Z\<close> and nothing else changes.
\<close>

type_synonym case_table = "string \<Rightarrow> string"

definition upper_point :: "case_table \<Rightarrow> string \<Rightarrow> string" where
  "upper_point table p =
     (case p of
        [c] \<Rightarrow> if (of_char c :: nat) < 128 then [upper_char c] else table p
      | _ \<Rightarrow> table p)"

definition upper :: "case_table \<Rightarrow> string \<Rightarrow> string" where
  "upper table s = concat (map (upper_point table) (code_points s))"

text \<open>\<open>starts_with p s\<close> is \<open>s.startswith(p)\<close>; \<open>contains p s\<close> is Python's \<open>p in s\<close>.\<close>

fun starts_with :: "string \<Rightarrow> string \<Rightarrow> bool" where
  "starts_with [] s = True"
| "starts_with (p # ps) [] = False"
| "starts_with (p # ps) (c # cs) = (p = c \<and> starts_with ps cs)"

fun contains :: "string \<Rightarrow> string \<Rightarrow> bool" where
  "contains p [] = (p = [])"
| "contains p (c # cs) = (starts_with p (c # cs) \<or> contains p cs)"

section \<open>Failures\<close>

text \<open>
  What a call into a collaborator (the model provider, the data provider, the renderer)
  raises: an instance of \<open>Exception\<close>, which is what every \<open>except\<close> clause of the
  program names. \<open>ClientError\<close> is \<open>google.genai.errors.ClientError\<close> with its \<open>code\<close>
  attribute (\<open>None\<close> when the attribute is missing) and the text \<open>str(err)\<close>; \<open>Exc\<close> is any
  other exception with its class name and \<open>str(err)\<close>. Interpreter signals that are not
  instances of \<open>Exception\<close> (\<open>KeyboardInterrupt\<close>, \<open>SystemExit\<close>, \<open>GeneratorExit\<close>) are
  not failures of a call and are not part of this type.
\<close>

datatype exn =
    ClientError "int option" string
  | Exc string string

section \<open>The chat endpoint\<close>

record PromptObject =
  content :: string
  id' :: string
  role :: string

record RequestObject =
  prompt :: PromptObject
  threadId :: string
  responseId :: string

datatype message = SystemMessage string | HumanMessage string

text \<open>The arguments of \<open>agent.stream\<close>: the input messages, the stream mode and the
  \<open>thread_id\<close> of the config.\<close>

record stream_args =
  messages :: "message list"
  stream_mode :: string
  thread_id :: string

text \<open>
  What iterating \<open>agent.stream(...)\<close> does, seen from the \<open>for\<close> loop: the stream is
  exhausted, or it hands over a token with its \<open>content\<close> and goes on, or it raises.
  The agent (the model, the tool dispatch and the checkpointer of the framework) is a
  parameter: a function from the arguments of the call to such a stream.
\<close>

datatype token_stream = Done | Token string token_stream | Raise exn

type_synonym agent = "stream_args \<Rightarrow> token_stream"

definition system_instruction :: string where
  "system_instruction =
     ''You are a stock analysis assistant. You can stream answers, fetch real-time stock '' @
     ''prices, historical prices (with date range), news, balance sheet data, and also '' @
     ''render quick PNG price charts via the render_stock_chart tool. If you return a '' @
     ''data URI image, present it as markdown so the client can display the chart.''"

text \<open>The warning sign U+26A0 U+FE0F that opens every advisory, in UTF-8.\<close>

definition warning_sign :: string where
  "warning_sign = [CHR 0xE2, CHR 0x9A, CHR 0xA0, CHR 0xEF, CHR 0xB8, CHR 0x8F]"

definition quota_advisory :: string where
  "quota_advisory =
     warning_sign @ '' Model quota exhausted. Please retry shortly or upgrade your plan.''"

text \<open>The two \<open>except\<close> clauses of \<open>generate\<close>: the fragment yielded for a failure.\<close>

fun advisory :: "exn \<Rightarrow> string" where
  "advisory (ClientError code text) =
     (if code = Some 429 \<or> contains ''quota'' (lower text)
      then quota_advisory
      else warning_sign @ '' Upstream client error: '' @ text)"
| "advisory (Exc cls text) = warning_sign @ '' Unexpected server error: '' @ text"

text \<open>
  What the transport layer sees of the generator: the fragments it yielded, in order,
  and the exception that left it, if one did.
\<close>

record response =
  fragments :: "string list"
  escaped :: "exn option"

text \<open>The \<open>try\<close> block of \<open>generate\<close>: one \<open>yield token.content\<close> for each token; a raise
  inside the loop goes to the \<open>except\<close> clauses, which yield one more fragment.\<close>

fun drain :: "token_stream \<Rightarrow> response" where
  "drain Done = \<lparr>fragments = [], escaped = None\<rparr>"
| "drain (Token c rest) = (let r = drain rest in r\<lparr>fragments := c # fragments r\<rparr>)"
| "drain (Raise err) = \<lparr>fragments = [advisory err], escaped = None\<rparr>"

definition stream_input :: "RequestObject \<Rightarrow> stream_args" where
  "stream_input request =
     \<lparr>messages = [SystemMessage system_instruction, HumanMessage (content (prompt request))],
      stream_mode = ''messages'',
      thread_id = threadId request\<rparr>"

definition generate :: "agent \<Rightarrow> RequestObject \<Rightarrow> response" where
  "generate agent request = drain (agent (stream_input request))"

text \<open>A stream that hands over the tokens \<open>cs\<close> and then behaves as \<open>s\<close>.\<close>

definition tokens_then :: "string list \<Rightarrow> token_stream \<Rightarrow> token_stream" where
  "tokens_then cs s = foldr Token cs s"

text \<open>The \<open>content\<close> attribute of a message.\<close>

fun message_content :: "message \<Rightarrow> string" where
  "message_content (SystemMessage c) = c"
| "message_content (HumanMessage c) = c"

section \<open>Values of the data provider\<close>

text \<open>
  A Python \<open>float\<close> (and \<open>numpy.float64\<close>, which formats as one) by its exact value:
  \<open>Finite s m e\<close> is \<open>m * 2 ^ e\<close>, negative when the sign bit \<open>s\<close> is set (so
  \<open>Finite True 0 e\<close> is \<open>-0.0\<close>); every IEEE double that is not an infinity or a NaN is
  such a value.
\<close>

datatype pyfloat = Finite bool nat int | Infinity bool | NaN

text \<open>
  What a price cell or a \<open>fast_info\<close> entry can hold: \<open>None\<close>, a float, a \<open>str\<close>, or
  some other object, which is truthy, takes no number format, and is known by the text
  \<open>str()\<close> gives for it.
\<close>

datatype pyval = PyNone | PyFloat pyfloat | PyStr string | PyObj string

fun truthy :: "pyval \<Rightarrow> bool" where
  "truthy PyNone = False"
| "truthy (PyFloat (Finite s m e)) = (m \<noteq> 0)"
| "truthy (PyFloat (Infinity s)) = True"
| "truthy (PyFloat NaN) = True"
| "truthy (PyStr s) = (s \<noteq> [])"
| "truthy (PyObj s) = True"

text \<open>Python's \<open>a or b\<close>.\<close>

definition py_or :: "pyval \<Rightarrow> pyval \<Rightarrow> pyval" where
  "py_or a b = (if truthy a then a else b)"

text \<open>\<open>d.get(k)\<close> on a dict given by its items: \<open>None\<close> for a missing key.\<close>

definition dict_get :: "(string \<times> pyval) list \<Rightarrow> string \<Rightarrow> pyval" where
  "dict_get d k = (case map_of d k of None \<Rightarrow> PyNone | Some v \<Rightarrow> v)"

subsection \<open>The format \<open>,.2f\<close>\<close>

definition digit_char :: "nat \<Rightarrow> char" where
  "digit_char d = char_of (48 + d)"

text \<open>The decimal digits of a natural number, most significant first.\<close>

fun digits :: "nat \<Rightarrow> string" where
  "digits n = (if n < 10 then [digit_char n] else digits (n div 10) @ [digit_char (n mod 10)])"

text \<open>The thousands separator of the \<open>,\<close> option: a comma before every group of three
  digits, counted from the right.\<close>

fun group_thousands :: "string \<Rightarrow> string" where
  "group_thousands ds =
     (if length ds \<le> 3 then ds
      else group_thousands (take (length ds - 3) ds) @ '','' @ drop (length ds - 3) ds)"

text \<open>
  \<open>cents m e\<close> is \<open>m * 2 ^ e * 100\<close> rounded to the nearest integer, a tie going to the
  even one: float formatting rounds the exact binary value correctly.
\<close>

definition cents :: "nat \<Rightarrow> int \<Rightarrow> nat" where
  "cents m e =
     (if 0 \<le> e then m * 2 ^ nat e * 100
      else let d = 2 ^ nat (- e); n = m * 100; q = n div d; r = n mod d
           in if 2 * r < d then q
              else if d < 2 * r then q + 1
              else if even q then q else q + 1)"

text \<open>\<open>format(x, ',.2f')\<close> for a float.\<close>

fun format_2f :: "pyfloat \<Rightarrow> string" where
  "format_2f (Finite s m e) =
     (let c = cents m e
      in (if s then ''-'' else '''') @ group_thousands (digits (c div 100)) @ ''.'' @
         [digit_char (c mod 100 div 10), digit_char (c mod 10)])"
| "format_2f (Infinity s) = (if s then ''-inf'' else ''inf'')"
| "format_2f NaN = ''nan''"

text \<open>
  Lines 75 to 78: \<open>f"${price:,.2f}"\<close>, and \<open>str(price)\<close> when the format raises, which
  it does for everything that is not a number (\<open>ValueError\<close> for a \<open>str\<close>, \<open>TypeError\<close>
  for \<open>None\<close> and for other objects).
\<close>

fun format_price :: "pyval \<Rightarrow> string" where
  "format_price (PyFloat x) = ''$'' @ format_2f x"
| "format_price (PyStr s) = s"
| "format_price (PyObj s) = s"
| "format_price PyNone = ''None''"


section \<open>The data provider\<close>

text \<open>
  A \<open>DataFrame\<close>: the labels of its rows and its columns by name, each with one cell for
  every row.
\<close>

record frame =
  index :: "string list"
  columns :: "(string \<times> pyval list) list"

text \<open>\<open>df.empty\<close>: an axis of length 0.\<close>

definition frame_empty :: "frame \<Rightarrow> bool" where
  "frame_empty df = (index df = [] \<or> columns df = [])"

text \<open>\<open>df[name]\<close> raises \<open>KeyError\<close> for a column the frame does not have; its text
  is the name between single quotes.\<close>

definition getitem :: "frame \<Rightarrow> string \<Rightarrow> exn + pyval list" where
  "getitem df name =
     (case map_of (columns df) name of
        None \<Rightarrow> Inl (Exc ''KeyError'' ([CHR 0x27] @ name @ [CHR 0x27]))
      | Some cells \<Rightarrow> Inr cells)"

text \<open>\<open>series.iloc[-1]\<close> raises \<open>IndexError\<close> on a series with no cell.\<close>

definition iloc_last :: "pyval list \<Rightarrow> exn + pyval" where
  "iloc_last cells =
     (if cells = [] then Inl (Exc ''IndexError'' ''single positional indexer is out-of-bounds'')
      else Inr (last cells))"

text \<open>\<open>df.to_dict()\<close>: for every column, the cell under every row label.\<close>

definition to_dict :: "frame \<Rightarrow> (string \<times> (string \<times> pyval) list) list" where
  "to_dict df = map (\<lambda>(name, cells). (name, zip (index df) cells)) (columns df)"

text \<open>The three ways the tools call \<open>stock.history\<close>: with no argument, with \<open>start\<close>
  and \<open>end\<close>, and with \<open>period\<close> and \<open>interval\<close>.\<close>

datatype history_query =
    Default
  | Between string string
  | Period string string

text \<open>
  The value of \<open>getattr(stock, 'fast_info', None)\<close>: \<open>None\<close> (also for a missing
  attribute), a \<open>dict\<close> by its items, or an object that is not a \<open>dict\<close>.
\<close>

datatype fast_info_value = FastNone | FastDict "(string \<times> pyval) list" | FastObject

text \<open>
  An item of the news feed, or a value inside one: \<open>None\<close>, a \<open>str\<close>, a \<open>dict\<close> by its
  items together with the text \<open>str()\<close> gives for it, or any other object by its truth
  value and that text.
\<close>

datatype jval =
    JNone
  | JStr string
  | JDict "(string \<times> jval) list" string
  | JOther bool string

text \<open>
  The object \<open>yf.Ticker(ticker)\<close> returns, by what each use of it in the tools does:
  it returns a value or raises. \<open>info\<close> holds the company texts (\<open>None\<close> for a missing
  or empty attribute), \<open>news\<close> the feed (\<open>None\<close> when there is none).
\<close>

record stock =
  history :: "history_query \<Rightarrow> exn + frame"
  fast_info :: "exn + fast_info_value"
  info :: "exn + (string \<times> string) list option"
  balance_sheet :: "exn + frame"
  news :: "exn + jval list option"

text \<open>The data provider: the constructor \<open>yf.Ticker\<close>, which is a call like the others
  and returns the object or raises.\<close>

type_synonym provider = "string \<Rightarrow> exn + stock"

section \<open>The tools\<close>

subsection \<open>\<open>get_stock_price\<close>\<close>

text \<open>Lines 44 to 50: the last close of the default history; \<open>None\<close> when the history
  is empty and when anything in the \<open>try\<close> block raises.\<close>

definition history_price :: "stock \<Rightarrow> pyval" where
  "history_price st =
     (case history st Default of
        Inl err \<Rightarrow> PyNone
      | Inr hist \<Rightarrow>
          if \<not> frame_empty hist then
            (case getitem hist ''Close'' of
               Inl err \<Rightarrow> PyNone
             | Inr cells \<Rightarrow> (case iloc_last cells of Inl err \<Rightarrow> PyNone | Inr v \<Rightarrow> v))
          else PyNone)"

text \<open>Lines 54 to 59, run when the price is still \<open>None\<close>: \<open>last_price\<close> or
  \<open>last_close\<close> of a non-empty \<open>dict\<close>; \<open>None\<close> otherwise and when the fetch raises.\<close>

definition fallback_price :: "stock \<Rightarrow> pyval" where
  "fallback_price st =
     (case fast_info st of
        Inl err \<Rightarrow> PyNone
      | Inr FastNone \<Rightarrow> PyNone
      | Inr FastObject \<Rightarrow> PyNone
      | Inr (FastDict fast) \<Rightarrow>
          if fast \<noteq> [] then py_or (dict_get fast ''last_price'') (dict_get fast ''last_close'')
          else PyNone)"

definition resolve_price :: "stock \<Rightarrow> pyval" where
  "resolve_price st =
     (let price = history_price st
      in if price = PyNone then fallback_price st else price)"

text \<open>Lines 62 to 67: \<open>shortName\<close> or \<open>longName\<close> of the company texts; \<open>None\<close> when the
  fetch raises.\<close>

definition company_name :: "stock \<Rightarrow> string option" where
  "company_name st =
     (case info st of
        Inl err \<Rightarrow> None
      | Inr i \<Rightarrow>
          let d = (case i of None \<Rightarrow> [] | Some d \<Rightarrow> d)
          in (case map_of d ''shortName'' of
                Some s \<Rightarrow> if s \<noteq> [] then Some s else map_of d ''longName''
              | None \<Rightarrow> map_of d ''longName''))"

definition get_stock_price :: "case_table \<Rightarrow> provider \<Rightarrow> string \<Rightarrow> exn + string" where
  "get_stock_price table Ticker ticker =
     (case Ticker ticker of
        Inl err \<Rightarrow> Inl err
      | Inr st \<Rightarrow>
          let price = resolve_price st;
              name = company_name st;
              symbol = upper table ticker
          in if price = PyNone then Inr (''No price data available for '' @ symbol @ ''.'')
             else
               let formatted = format_price price
               in (case name of
                     Some n \<Rightarrow>
                       if n \<noteq> [] then
                         Inr (''The current stock price of '' @ n @ '' ('' @ symbol @ '') is '' @
                              formatted @ ''.'')
                       else Inr (''The current stock price of '' @ symbol @ '' is '' @
                                 formatted @ ''.'')
                   | None \<Rightarrow>
                       Inr (''The current stock price of '' @ symbol @ '' is '' @
                            formatted @ ''.'')))"

subsection \<open>\<open>get_historical_stock_price\<close> and \<open>get_balance_sheet\<close>\<close>

definition get_historical_stock_price ::
  "provider \<Rightarrow> string \<Rightarrow> string \<Rightarrow> string \<Rightarrow> exn + (string \<times> (string \<times> pyval) list) list" where
  "get_historical_stock_price Ticker ticker start_date end_date =
     (case Ticker ticker of
        Inl err \<Rightarrow> Inl err
      | Inr st \<Rightarrow>
          (case history st (Between start_date end_date) of
             Inl err \<Rightarrow> Inl err
           | Inr hist \<Rightarrow> Inr (to_dict hist)))"

definition get_balance_sheet :: "provider \<Rightarrow> string \<Rightarrow> exn + frame" where
  "get_balance_sheet Ticker ticker =
     (case Ticker ticker of
        Inl err \<Rightarrow> Inl err
      | Inr st \<Rightarrow> balance_sheet st)"

subsection \<open>\<open>get_stock_news\<close>\<close>

fun jtruthy :: "jval \<Rightarrow> bool" where
  "jtruthy JNone = False"
| "jtruthy (JStr s) = (s \<noteq> [])"
| "jtruthy (JDict items shown) = (items \<noteq> [])"
| "jtruthy (JOther b shown) = b"

definition jor :: "jval \<Rightarrow> jval \<Rightarrow> jval" where
  "jor a b = (if jtruthy a then a else b)"

definition jget :: "(string \<times> jval) list \<Rightarrow> string \<Rightarrow> jval" where
  "jget d k = (case map_of d k of None \<Rightarrow> JNone | Some v \<Rightarrow> v)"

text \<open>\<open>str(v)\<close>, as an f-string field shows a value.\<close>

fun jstr :: "jval \<Rightarrow> string" where
  "jstr JNone = ''None''"
| "jstr (JStr s) = s"
| "jstr (JDict items shown) = shown"
| "jstr (JOther b shown) = shown"

text \<open>Line 114: the \<open>content\<close> of a \<open>dict\<close> item when it has a truthy one, else the
  item itself.\<close>

fun news_entry :: "jval \<Rightarrow> jval" where
  "news_entry (JDict items shown) =
     (if jtruthy (jget items ''content'') then jget items ''content'' else JDict items shown)"
| "news_entry it = it"

text \<open>Lines 125 to 129 and 133 to 137: a field that is a \<open>dict\<close> is looked into, any
  other value is taken as it is.\<close>

fun news_provider :: "jval \<Rightarrow> jval" where
  "news_provider (JDict prov shown) = jor (jget prov ''displayName'') (jget prov ''name'')"
| "news_provider prov = prov"

fun news_url :: "jval \<Rightarrow> jval" where
  "news_url (JDict can shown) = jget can ''url''"
| "news_url can = can"

text \<open>The em dash U+2014 of line 148, in UTF-8.\<close>

definition em_dash :: string where
  "em_dash = [CHR 0xE2, CHR 0x80, CHR 0x94]"

text \<open>Lines 114 to 150: the line of the summary for one item.\<close>

definition news_line :: "jval \<Rightarrow> string" where
  "news_line it =
     (let entry = news_entry it;
          title0 = (case entry of
                      JDict e shown \<Rightarrow>
                        jor (jor (jget e ''title'') (jget e ''summary'')) (jget e ''description'')
                    | _ \<Rightarrow> JNone);
          provider0 = (case entry of
                         JDict e shown \<Rightarrow>
                           news_provider
                             (jor (jor (jget e ''provider'') (jget e ''publisher''))
                                  (jget e ''source''))
                       | _ \<Rightarrow> JNone);
          time0 = (case entry of
                     JDict e shown \<Rightarrow> jor (jget e ''displayTime'') (jget e ''pubDate'')
                   | _ \<Rightarrow> JNone);
          url = (case entry of
                   JDict e shown \<Rightarrow>
                     news_url (jor (jget e ''canonicalUrl'') (jget e ''clickThroughUrl''))
                 | _ \<Rightarrow> JNone);
          title = jor (jor title0 (case entry of JStr s \<Rightarrow> entry | _ \<Rightarrow> JNone))
                      (JStr ''No title'');
          provider = jor provider0 (JStr ''Unknown source'');
          time = jor time0 (JStr []);
          time_str = (if jtruthy time then ''['' @ jstr time @ ''] '' else [])
      in if jtruthy url then
           ''- '' @ time_str @ jstr title @ '' ('' @ jstr provider @ '') '' @ em_dash @ '' '' @
           jstr url
         else ''- '' @ time_str @ jstr title @ '' ('' @ jstr provider @ '')'')"

text \<open>\<open>'\n'.join(lines)\<close>.\<close>

fun join_lines :: "string list \<Rightarrow> string" where
  "join_lines [] = []"
| "join_lines [l] = l"
| "join_lines (l # ls) = l @ [CHR 0x0A] @ join_lines ls"

definition get_stock_news :: "case_table \<Rightarrow> provider \<Rightarrow> string \<Rightarrow> exn + string" where
  "get_stock_news table Ticker ticker =
     (case Ticker ticker of
        Inl err \<Rightarrow> Inl err
      | Inr st \<Rightarrow>
          (case news st of
             Inl err \<Rightarrow> Inl err
           | Inr None \<Rightarrow> Inr (''No recent news found for '' @ upper table ticker @ ''.'')
           | Inr (Some raw) \<Rightarrow>
               if raw = [] then Inr (''No recent news found for '' @ upper table ticker @ ''.'')
               else
                 Inr (join_lines
                        ((''Here are the latest updates for '' @ upper table ticker @ '':'') #
                         map news_line (take 5 raw)))))"

subsection \<open>\<open>render_stock_chart\<close>\<close>

text \<open>
  What lines 162 to 173 hand to the plotting library: the title, the row labels and the
  close column. The library, up to the bytes \<open>savefig\<close> leaves in the buffer, is a
  parameter: it returns the bytes of a PNG file or raises.
\<close>

record chart =
  title :: string
  xs :: "string list"
  ys :: "pyval list"

type_synonym renderer = "chart \<Rightarrow> exn + char list"

text \<open>\<open>base64.b64encode\<close>: the bits of three bytes, cut into four groups of six, become
  four characters of the alphabet; a last group of one or two bytes is filled with zero
  bits and padded with \<open>=\<close>.\<close>

definition b64_char :: "nat \<Rightarrow> char" where
  "b64_char i =
     (if i < 26 then char_of (65 + i)
      else if i < 52 then char_of (97 + (i - 26))
      else if i < 62 then char_of (48 + (i - 52))
      else if i = 62 then CHR ''+'' else CHR ''/'')"

fun b64encode :: "char list \<Rightarrow> string" where
  "b64encode [] = []"
| "b64encode [a] =
     (let x = of_char a
      in [b64_char (x div 4), b64_char (x mod 4 * 16), CHR ''='', CHR ''=''])"
| "b64encode [a, b] =
     (let x = of_char a; y = of_char b
      in [b64_char (x div 4), b64_char (x mod 4 * 16 + y div 16), b64_char (y mod 16 * 4),
          CHR ''=''])"
| "b64encode (a # b # c # rest) =
     (let x = of_char a; y = of_char b; z = of_char c
      in [b64_char (x div 4), b64_char (x mod 4 * 16 + y div 16),
          b64_char (y mod 16 * 4 + z div 64), b64_char (z mod 64)] @ b64encode rest)"

text \<open>The alphabet of base64, without the padding character.\<close>

definition b64_alphabet :: string where
  "b64_alphabet = ''ABCDEFGHIJKLMNOPQRSTUVWXYZabcdefghijklmnopqrstuvwxyz0123456789+/''"



definition render_stock_chart ::
  "case_table \<Rightarrow> provider \<Rightarrow> renderer \<Rightarrow> string \<Rightarrow> string \<Rightarrow> string \<Rightarrow> exn + string" where
  "render_stock_chart table Ticker savefig ticker period interval =
     (case Ticker ticker of
        Inl err \<Rightarrow> Inl err
      | Inr st \<Rightarrow>
          (case history st (Period period interval) of
             Inl err \<Rightarrow> Inl err
           | Inr hist \<Rightarrow>
               if frame_empty hist then Inr (''No price data available for '' @ ticker @ ''.'')
               else
                 (case getitem hist ''Close'' of
                    Inl err \<Rightarrow> Inl err
                  | Inr closes \<Rightarrow>
                      (case savefig \<lparr>title = upper table ticker @ '' close price'',
                                     xs = index hist, ys = closes\<rparr> of
                         Inl err \<Rightarrow> Inl err
                       | Inr png \<Rightarrow> Inr (''data:image/png;base64,'' @ b64encode png)))))"

section \<open>Example providers\<close>

text \<open>
  A provider that answers for Acme Corp (its last close is the double nearest to 123.45), one
  whose every fetch fails for want of a network, one that knows nothing about the ticker,
  and one whose constructor rejects the ticker.
\<close>

definition network_down :: exn where
  "network_down = Exc ''ConnectionError'' ''Network is unreachable''"

definition acme_history :: frame where
  "acme_history =
     \<lparr>index = [''2024-01-02'', ''2024-01-03''],
      columns = [(''Open'', [PyFloat (Finite False 123 0), PyFloat (Finite False 124 0)]),
                 (''Close'', [PyFloat (Finite False 124 0),
                              PyFloat (Finite False 8687021468732621 (- 46))])]\<rparr>"

definition acme_stock :: stock where
  "acme_stock =
     \<lparr>history = (\<lambda>q. Inr acme_history),
      fast_info = Inr FastObject,
      info = Inr (Some [(''shortName'', ''Acme Corp'')]),
      balance_sheet = Inr \<lparr>index = [], columns = []\<rparr>,
      news = Inr (Some [])\<rparr>"

definition acme_provider :: provider where
  "acme_provider ticker = Inr acme_stock"

definition offline_stock :: stock where
  "offline_stock =
     \<lparr>history = (\<lambda>q. Inl network_down),
      fast_info = Inl network_down,
      info = Inl network_down,
      balance_sheet = Inl network_down,
      news = Inl network_down\<rparr>"

definition offline_provider :: provider where
  "offline_provider ticker = Inr offline_stock"

definition unlisted_stock :: stock where
  "unlisted_stock =
     \<lparr>history = (\<lambda>q. Inr \<lparr>index = [], columns = []\<rparr>),
      fast_info = Inr FastNone,
      info = Inr None,
      balance_sheet = Inr \<lparr>index = [], columns = []\<rparr>,
      news = Inr None\<rparr>"

definition unlisted_provider :: provider where
  "unlisted_provider ticker = Inr unlisted_stock"

definition rejecting_provider :: provider where
  "rejecting_provider ticker = Inl (Exc ''ValueError'' (''Invalid ISIN number: '' @ ticker))"

text \<open>
  A stock whose last close is not a number, and one whose history has rows but no
  \<open>Close\<close> column.
\<close>

definition nan_stock :: stock where
  "nan_stock =
     acme_stock\<lparr>history := (\<lambda>q. Inr \<lparr>index = [''2024-01-02''],
                                        columns = [(''Close'', [PyFloat NaN])]\<rparr>)\<rparr>"

definition nan_provider :: provider where
  "nan_provider ticker = Inr nan_stock"

definition closeless_history :: frame where
  "closeless_history =
     \<lparr>index = [''2024-01-02''], columns = [(''Volume'', [PyFloat (Finite False 1000 0)])]\<rparr>"

definition closeless_stock :: stock where
  "closeless_stock = acme_stock\<lparr>history := (\<lambda>q. Inr closeless_history)\<rparr>"

definition closeless_provider :: provider where
  "closeless_provider ticker = Inr closeless_stock"

text \<open>
  A case table with the upper-case mappings of two code points, e acute (U+00E9 to
  U+00C9) and sharp s (U+00DF to \<open>SS\<close>), which leaves every other code point as it is.
\<close>

definition sample_table :: case_table where
  "sample_table p =
     (if p = [CHR 0xC3, CHR 0xA9] then [CHR 0xC3, CHR 0x89]
      else if p = [CHR 0xC3, CHR 0x9F] then ''SS''
      else p)"

text \<open>A renderer that leaves the eight bytes of the PNG signature in the buffer.\<close>

definition png_signature :: "char list" where
  "png_signature = [CHR 0x89, CHR ''P'', CHR ''N'', CHR ''G'', CHR 0x0D, CHR 0x0A, CHR 0x1A, CHR 0x0A]"

definition acme_renderer :: renderer where
  "acme_renderer c = Inr png_signature"

section \<open>Properties of the chat endpoint\<close>

lemma drain_tokens_then:
  "drain (tokens_then cs s) = (drain s)\<lparr>fragments := cs @ fragments (drain s)\<rparr>"
  by (induction cs) (simp_all add: tokens_then_def Let_def)

lemma drain_tokens_then_Raise:
  "drain (tokens_then cs (Raise err)) = \<lparr>fragments = cs @ [advisory err], escaped = None\<rparr>"
  by (simp add: drain_tokens_then)

lemma drain_never_escapes: "escaped (drain s) = None"
  by (induction s) (simp_all add: Let_def)

lemma starts_with_append: "starts_with p (p @ s)"
  by (induction p) simp_all

lemma advisory_warning: "starts_with warning_sign (advisory err)"
  by (cases err) (simp_all add: quota_advisory_def starts_with_append)

lemma quota_in_advisory: "contains ''quota exhausted'' (lower quota_advisory)"
  by code_simp

text \<open>
  C1. Whatever exception the agent's stream raises, and after whatever tokens, the
  generator yields the tokens already produced, unchanged and in order, then exactly one
  more fragment, the advisory for that exception (which opens with the warning sign), and
  ends: no exception leaves the generator.
\<close>

theorem stream_ends_with_advisory:
  assumes "agent (stream_input request) = tokens_then cs (Raise err)"
  shows "generate agent request = \<lparr>fragments = cs @ [advisory err], escaped = None\<rparr>
         \<and> starts_with warning_sign (advisory err)"
  using assms by (simp add: generate_def drain_tokens_then_Raise advisory_warning)

theorem stream_ends_with_advisory_witness:
  "(\<lambda>a. tokens_then [''Hel'', ''lo''] (Raise (Exc ''RuntimeError'' ''boom'')))
      (stream_input \<lparr>prompt = \<lparr>content = ''hi'', id' = ''1'', role = ''user''\<rparr>,
                     threadId = ''t1'', responseId = ''r1''\<rparr>)
     = tokens_then [''Hel'', ''lo''] (Raise (Exc ''RuntimeError'' ''boom''))
   \<and> generate (\<lambda>a. tokens_then [''Hel'', ''lo''] (Raise (Exc ''RuntimeError'' ''boom'')))
        \<lparr>prompt = \<lparr>content = ''hi'', id' = ''1'', role = ''user''\<rparr>,
         threadId = ''t1'', responseId = ''r1''\<rparr>
     = \<lparr>fragments = [''Hel'', ''lo'', warning_sign @ '' Unexpected server error: boom''],
        escaped = None\<rparr>"
  using stream_ends_with_advisory
    [of "\<lambda>a. tokens_then [''Hel'', ''lo''] (Raise (Exc ''RuntimeError'' ''boom''))"
        "\<lparr>prompt = \<lparr>content = ''hi'', id' = ''1'', role = ''user''\<rparr>,
          threadId = ''t1'', responseId = ''r1''\<rparr>"
        "[''Hel'', ''lo'']" "Exc ''RuntimeError'' ''boom''"]
  by simp

text \<open>
  C3. When the stream raises a provider client error whose \<open>code\<close> is 429 or whose text,
  in lower case, contains \<open>quota\<close>, the generator yields, after the tokens already
  produced, exactly one fragment, the quota advisory, whose text names the exhausted
  quota, and ends with no exception leaving it. With no token before the failure the
  whole stream is that one fragment.
\<close>

theorem quota_failure_single_advisory:
  assumes "agent (stream_input request) = tokens_then cs (Raise (ClientError code text))"
      and "code = Some 429 \<or> contains ''quota'' (lower text)"
  shows "generate agent request = \<lparr>fragments = cs @ [quota_advisory], escaped = None\<rparr>
         \<and> contains ''quota exhausted'' (lower quota_advisory)"
  using assms by (simp add: generate_def drain_tokens_then_Raise quota_in_advisory)

theorem quota_failure_single_advisory_witness:
  "contains ''quota'' (lower ''503 Quota exceeded for this project'')
   \<and> generate (\<lambda>a. Raise (ClientError None ''503 Quota exceeded for this project''))
        \<lparr>prompt = \<lparr>content = ''Price of ACME?'', id' = ''1'', role = ''user''\<rparr>,
         threadId = ''t1'', responseId = ''r1''\<rparr>
     = \<lparr>fragments = [quota_advisory], escaped = None\<rparr>"
proof -
  have q: "contains ''quota'' (lower ''503 Quota exceeded for this project'')"
    by code_simp
  have s: "(\<lambda>a. Raise (ClientError None ''503 Quota exceeded for this project''))
             (stream_input \<lparr>prompt = \<lparr>content = ''Price of ACME?'', id' = ''1'', role = ''user''\<rparr>,
                            threadId = ''t1'', responseId = ''r1''\<rparr>)
           = tokens_then [] (Raise (ClientError None ''503 Quota exceeded for this project''))"
    by (simp add: tokens_then_def)
  from quota_failure_single_advisory [OF s disjI2 [OF q]] q show ?thesis
    by simp
qed

text \<open>
  C4. When the stream raises a provider client error that is not classified as quota
  exhaustion (its \<open>code\<close> is not 429 and its text does not contain \<open>quota\<close>), the
  generator yields, after the tokens already produced, one fragment made of the warning
  sign, \<open>Upstream client error:\<close> and the text of the error, and ends with no exception
  leaving it.
\<close>

theorem client_failure_diagnostic:
  assumes "agent (stream_input request) = tokens_then cs (Raise (ClientError code text))"
      and "\<not> (code = Some 429 \<or> contains ''quota'' (lower text))"
  shows "generate agent request =
           \<lparr>fragments = cs @ [warning_sign @ '' Upstream client error: '' @ text],
            escaped = None\<rparr>"
  using assms by (simp add: generate_def drain_tokens_then_Raise)

theorem client_failure_diagnostic_witness:
  "generate (\<lambda>a. Token ''The '' (Raise (ClientError (Some 400) ''400 INVALID_ARGUMENT. Bad request'')))
        \<lparr>prompt = \<lparr>content = ''Price of ACME?'', id' = ''1'', role = ''user''\<rparr>,
         threadId = ''t1'', responseId = ''r1''\<rparr>
     = \<lparr>fragments = [''The '', warning_sign @ '' Upstream client error: 400 INVALID_ARGUMENT. Bad request''],
        escaped = None\<rparr>"
proof -
  have q: "\<not> contains ''quota'' (lower ''400 INVALID_ARGUMENT. Bad request'')"
    by code_simp
  have c: "\<not> (Some (400::int) = Some 429 \<or> contains ''quota'' (lower ''400 INVALID_ARGUMENT. Bad request''))"
    using q by simp
  have s: "(\<lambda>a. Token ''The '' (Raise (ClientError (Some 400) ''400 INVALID_ARGUMENT. Bad request'')))
             (stream_input \<lparr>prompt = \<lparr>content = ''Price of ACME?'', id' = ''1'', role = ''user''\<rparr>,
                            threadId = ''t1'', responseId = ''r1''\<rparr>)
           = tokens_then [''The ''] (Raise (ClientError (Some 400) ''400 INVALID_ARGUMENT. Bad request''))"
    by (simp add: tokens_then_def)
  from client_failure_diagnostic [OF s c] show ?thesis
    by simp
qed

text \<open>
  C8. For every request and every agent, the one call of \<open>agent.stream\<close> made for the
  turn receives the fixed system instruction followed by the request's prompt content as a
  human message, under the request's thread: an agent that echoes the contents of its
  input messages makes the generator yield exactly these two texts.
\<close>

theorem model_call_input:
  "generate agent request =
     drain (agent \<lparr>messages = [SystemMessage system_instruction,
                               HumanMessage (content (prompt request))],
                   stream_mode = ''messages'',
                   thread_id = threadId request\<rparr>)
   \<and> generate (\<lambda>a. tokens_then (map message_content (messages a)) Done) request =
       \<lparr>fragments = [system_instruction, content (prompt request)], escaped = None\<rparr>"
  by (simp add: generate_def stream_input_def drain_tokens_then)

section \<open>Properties of the tools\<close>

text \<open>
  Upper case: on a text of ASCII characters the table plays no part, every letter \<open>a\<close> to
  \<open>z\<close> is replaced by its capital and nothing else changes; a code point outside ASCII
  is replaced by what the table holds for it.
\<close>

lemma code_points_ascii:
  assumes "\<forall>c\<in>set s. (of_char c :: nat) < 128"
  shows "code_points s = map (\<lambda>c. [c]) s"
  using assms
proof (induction s)
  case Nil
  show ?case by simp
next
  case (Cons c cs)
  have "takeWhile is_continuation cs = []" and "dropWhile is_continuation cs = cs"
    using Cons.prems by (cases cs; simp add: is_continuation_def)+
  with Cons show ?case
    by simp
qed

lemma upper_ascii:
  assumes "\<forall>c\<in>set s. (of_char c :: nat) < 128"
  shows "upper table s = map upper_char s"
proof -
  have "concat (map (upper_point table) (map (\<lambda>c. [c]) s)) = map upper_char s"
    using assms by (induction s) (simp_all add: upper_point_def)
  with assms show ?thesis
    by (simp add: upper_def code_points_ascii)
qed

lemma of_char_upper_char:
  "(of_char (upper_char c) :: nat) =
     (if 97 \<le> (of_char c :: nat) \<and> (of_char c :: nat) \<le> 122 then of_char c - 32 else of_char c)"
  by (auto simp add: upper_char_def Let_def)

lemma upper_ascii_letters:
  assumes "\<forall>c\<in>set s. (of_char c :: nat) < 128"
  shows "list_all2
           (\<lambda>c u. (of_char u :: nat) =
              (if 97 \<le> (of_char c :: nat) \<and> (of_char c :: nat) \<le> 122 then of_char c - 32
               else of_char c))
           s (upper table s)"
  by (simp add: upper_ascii [OF assms] list_all2_map2 list_all2_same of_char_upper_char)

lemma upper_code_point:
  assumes "\<not> is_continuation c" and "128 \<le> (of_char c :: nat)"
      and "\<forall>k\<in>set ks. is_continuation k"
      and "s = [] \<or> \<not> is_continuation (hd s)"
  shows "upper table ((c # ks) @ s) = table (c # ks) @ upper table s"
proof -
  have "takeWhile is_continuation (ks @ s) = ks" and "dropWhile is_continuation (ks @ s) = s"
    using assms(3,4) by (cases s; simp)+
  then have "code_points ((c # ks) @ s) = (c # ks) # code_points s"
    by simp
  moreover have "upper_point table (c # ks) = table (c # ks)"
    using assms(2) by (simp add: upper_point_def split: list.split)
  ultimately show ?thesis
    by (simp add: upper_def)
qed

lemma upper_ascii_append:
  assumes "\<forall>a\<in>set pre. (of_char a :: nat) < 128"
      and "rest = [] \<or> \<not> is_continuation (hd rest)"
  shows "upper table (pre @ rest) = upper table pre @ upper table rest"
  using assms(1)
proof (induction pre)
  case Nil
  show ?case by (simp add: upper_def)
next
  case (Cons a pre)
  have n: "pre @ rest = [] \<or> \<not> is_continuation (hd (pre @ rest))"
    using Cons.prems assms(2) by (cases pre) (auto simp add: is_continuation_def)
  have p: "pre = [] \<or> \<not> is_continuation (hd pre)"
    using Cons.prems by (cases pre) (auto simp add: is_continuation_def)
  have "takeWhile is_continuation (pre @ rest) = []" "dropWhile is_continuation (pre @ rest) = pre @ rest"
    using n by (cases "pre @ rest"; simp)+
  moreover have "takeWhile is_continuation pre = []" "dropWhile is_continuation pre = pre"
    using p by (cases pre; simp)+
  ultimately have "upper table ((a # pre) @ rest) = upper_point table [a] @ upper table (pre @ rest)"
    and "upper table (a # pre) = upper_point table [a] @ upper table pre"
    by (simp_all add: upper_def)
  with Cons show ?case
    by simp
qed

lemma upper_pins:
  "((\<forall>c\<in>set ticker. (of_char c :: nat) < 128) \<longrightarrow>
      list_all2
        (\<lambda>c u. (of_char u :: nat) =
           (if 97 \<le> (of_char c :: nat) \<and> (of_char c :: nat) \<le> 122 then of_char c - 32
            else of_char c))
        ticker (upper table ticker))
   \<and> (\<forall>pre c ks post.
        ticker = pre @ c # ks @ post
        \<and> (\<forall>a\<in>set pre. (of_char a :: nat) < 128)
        \<and> 192 \<le> (of_char c :: nat)
        \<and> (\<forall>k\<in>set ks. 128 \<le> (of_char k :: nat) \<and> (of_char k :: nat) < 192)
        \<and> (post = [] \<or> (of_char (hd post) :: nat) < 128 \<or> 192 \<le> (of_char (hd post) :: nat))
        \<longrightarrow> upper table ticker = upper table pre @ table (c # ks) @ upper table post)"
proof (intro conjI impI allI)
  assume "\<forall>c\<in>set ticker. (of_char c :: nat) < 128"
  then show "list_all2
        (\<lambda>c u. (of_char u :: nat) =
           (if 97 \<le> (of_char c :: nat) \<and> (of_char c :: nat) \<le> 122 then of_char c - 32
            else of_char c))
        ticker (upper table ticker)"
    by (rule upper_ascii_letters)
next
  fix pre c ks post
  assume a: "ticker = pre @ c # ks @ post
        \<and> (\<forall>a\<in>set pre. (of_char a :: nat) < 128)
        \<and> 192 \<le> (of_char c :: nat)
        \<and> (\<forall>k\<in>set ks. 128 \<le> (of_char k :: nat) \<and> (of_char k :: nat) < 192)
        \<and> (post = [] \<or> (of_char (hd post) :: nat) < 128 \<or> 192 \<le> (of_char (hd post) :: nat))"
  then have c: "\<not> is_continuation c" "128 \<le> (of_char c :: nat)"
    and ks: "\<forall>k\<in>set ks. is_continuation k"
    and post: "post = [] \<or> \<not> is_continuation (hd post)"
    by (auto simp add: is_continuation_def)
  have "upper table ((c # ks) @ post) = table (c # ks) @ upper table post"
    using c ks post by (rule upper_code_point)
  moreover have "upper table (pre @ ((c # ks) @ post)) = upper table pre @ upper table ((c # ks) @ post)"
    using a c by (intro upper_ascii_append) simp_all
  ultimately show "upper table ticker = upper table pre @ table (c # ks) @ upper table post"
    using a by simp
qed

lemma upper_acme: "upper table ''acme'' = ''ACME''"
proof -
  have "map upper_char ''acme'' = ''ACME''"
    by code_simp
  then show ?thesis
    by (simp add: upper_ascii)
qed

lemma upper_strasse:
  "upper sample_table [CHR ''s'', CHR ''t'', CHR ''r'', CHR ''a'', CHR 0xC3, CHR 0x9F, CHR ''e'']
     = ''STRASSE''"
  by code_simp

declare digits.simps [simp del] group_thousands.simps [simp del]










lemma cents_tie_even:
  assumes "e < 0" and "2 * (m * 100 mod 2 ^ nat (- e)) = 2 ^ nat (- e)"
  shows "even (cents m e)"
  using assms by (simp add: cents_def Let_def)










lemma get_stock_price_no_price:
  assumes "Ticker ticker = Inr st" and "resolve_price st = PyNone"
  shows "get_stock_price table Ticker ticker = Inr (''No price data available for '' @ upper table ticker @ ''.'')"
  using assms by (simp add: get_stock_price_def Let_def)

lemma get_stock_price_returns:
  assumes "Ticker ticker = Inr st"
  shows "\<exists>s. get_stock_price table Ticker ticker = Inr s"
  using assms by (simp add: get_stock_price_def Let_def split: option.split)

text \<open>
  C6. When the stock object is there, its default price history is empty and the
  \<open>fast_info\<close> fallback yields no price, \<open>get_stock_price\<close> returns the text
  \<open>No price data available for SYMBOL.\<close>, where the symbol is the ticker in upper case; it
  does not raise, whatever the fetch of the company name does. Upper case means: in a
  ticker of ASCII characters every letter \<open>a\<close> to \<open>z\<close> is replaced by its capital and
  nothing else changes, and a code point outside ASCII is replaced by its upper-case
  mapping in the interpreter's table.
\<close>

theorem no_price_message:
  assumes "Ticker ticker = Inr st"
      and "history st Default = Inr hist" and "frame_empty hist"
      and "fallback_price st = PyNone"
  shows "get_stock_price table Ticker ticker =
           Inr (''No price data available for '' @ upper table ticker @ ''.'')
       \<and> ((\<forall>c\<in>set ticker. (of_char c :: nat) < 128) \<longrightarrow>
            list_all2
              (\<lambda>c u. (of_char u :: nat) =
                 (if 97 \<le> (of_char c :: nat) \<and> (of_char c :: nat) \<le> 122 then of_char c - 32
                  else of_char c))
              ticker (upper table ticker))
       \<and> (\<forall>pre c ks post.
            ticker = pre @ c # ks @ post
            \<and> (\<forall>a\<in>set pre. (of_char a :: nat) < 128)
            \<and> 192 \<le> (of_char c :: nat)
            \<and> (\<forall>k\<in>set ks. 128 \<le> (of_char k :: nat) \<and> (of_char k :: nat) < 192)
            \<and> (post = [] \<or> (of_char (hd post) :: nat) < 128
                 \<or> 192 \<le> (of_char (hd post) :: nat))
            \<longrightarrow> upper table ticker = upper table pre @ table (c # ks) @ upper table post)"
proof -
  from assms(2,3) have "history_price st = PyNone"
    by (simp add: history_price_def)
  with assms(4) have "resolve_price st = PyNone"
    by (simp add: resolve_price_def)
  with assms(1) have e: "get_stock_price table Ticker ticker =
      Inr (''No price data available for '' @ upper table ticker @ ''.'')"
    by (rule get_stock_price_no_price)
  note u = upper_pins [of ticker table, THEN conjunct1]
    upper_pins [of ticker table, THEN conjunct2]
  show ?thesis
    by (intro conjI) (fact e u)+
qed

theorem no_price_message_witness:
  "get_stock_price sample_table unlisted_provider ''acme'' =
     Inr ''No price data available for ACME.''
   \<and> get_stock_price sample_table unlisted_provider
       [CHR ''s'', CHR ''t'', CHR ''r'', CHR ''a'', CHR 0xC3, CHR 0x9F, CHR ''e''] =
     Inr ''No price data available for STRASSE.''"
proof -
  have 1: "unlisted_provider t = Inr unlisted_stock" for t
    by (simp add: unlisted_provider_def)
  have 2: "history unlisted_stock Default = Inr \<lparr>index = [], columns = []\<rparr>"
    by (simp add: unlisted_stock_def)
  have 3: "frame_empty \<lparr>index = [], columns = []\<rparr>"
    by (simp add: frame_empty_def)
  have 4: "fallback_price unlisted_stock = PyNone"
    by (simp add: fallback_price_def unlisted_stock_def)
  note t = no_price_message [where Ticker = unlisted_provider and table = sample_table,
      OF 1 2 3 4, THEN conjunct1]
  from t [of "''acme''"]
       t [of "[CHR ''s'', CHR ''t'', CHR ''r'', CHR ''a'', CHR 0xC3, CHR 0x9F, CHR ''e'']"]
  show ?thesis
    by (simp only: upper_acme upper_strasse append.simps)
qed

lemma get_stock_price_priced:
  assumes "Ticker ticker = Inr st" and "resolve_price st \<noteq> PyNone"
  shows "get_stock_price table Ticker ticker =
           Inr ((case company_name st of
                   Some n \<Rightarrow>
                     if n \<noteq> [] then
                       ''The current stock price of '' @ n @ '' ('' @ upper table ticker @ '') is ''
                     else ''The current stock price of '' @ upper table ticker @ '' is ''
                 | None \<Rightarrow> ''The current stock price of '' @ upper table ticker @ '' is '') @
                format_price (resolve_price st) @ ''.'')"
  using assms by (simp add: get_stock_price_def Let_def split: option.split)




lemma resolve_price_nan: "resolve_price nan_stock = PyFloat NaN"
proof -
  have "history_price nan_stock = PyFloat NaN"
    by (simp add: history_price_def nan_stock_def frame_empty_def getitem_def iloc_last_def)
  then show ?thesis
    by (simp add: resolve_price_def)
qed

lemma company_name_acme:
  "company_name acme_stock = Some ''Acme Corp''" "company_name nan_stock = Some ''Acme Corp''"
  by (simp_all add: company_name_def acme_stock_def nan_stock_def)

text \<open>
  C7, as stated, fails: a price is available whenever it is not \<open>None\<close>, and the last
  close of a history can be a NaN. The price and the company name are then both there, and
  the sentence ends with \<open>$nan.\<close>, which has no decimals.
\<close>

theorem price_not_a_number_counterexample:
  "resolve_price nan_stock = PyFloat NaN
   \<and> company_name nan_stock = Some ''Acme Corp''
   \<and> get_stock_price sample_table nan_provider ''acme'' =
       Inr ''The current stock price of Acme Corp (ACME) is $nan.''"
proof -
  have "nan_provider ''acme'' = Inr nan_stock"
    by (simp add: nan_provider_def)
  then have "get_stock_price sample_table nan_provider ''acme'' =
      Inr (''The current stock price of Acme Corp ('' @ upper sample_table ''acme'' @ '') is '' @
           ''$nan'' @ ''.'')"
    by (simp add: get_stock_price_priced resolve_price_nan company_name_acme)
  then show ?thesis
    by (simp add: resolve_price_nan company_name_acme upper_acme)
qed








lemma b64encode_length: "length (b64encode bs) = 4 * ((length bs + 2) div 3)"
  by (induction bs rule: b64encode.induct) (simp_all add: Let_def, arith)











text \<open>
  C9. When the news feed of the stock object is \<open>None\<close> or an empty list,
  \<open>get_stock_news\<close> returns, as an ordinary result, the text
  \<open>No recent news found for TICKER.\<close> with the ticker in upper case: in a ticker of ASCII
  characters every letter \<open>a\<close> to \<open>z\<close> is replaced by its capital and nothing else
  changes, and a code point outside ASCII is replaced by its upper-case mapping in the
  interpreter's table.
\<close>

theorem no_news_message:
  assumes "Ticker ticker = Inr st"
      and "news st = Inr raw"
      and "raw = None \<or> raw = Some []"
  shows "get_stock_news table Ticker ticker =
           Inr (''No recent news found for '' @ upper table ticker @ ''.'')
       \<and> ((\<forall>c\<in>set ticker. (of_char c :: nat) < 128) \<longrightarrow>
            list_all2
              (\<lambda>c u. (of_char u :: nat) =
                 (if 97 \<le> (of_char c :: nat) \<and> (of_char c :: nat) \<le> 122 then of_char c - 32
                  else of_char c))
              ticker (upper table ticker))
       \<and> (\<forall>pre c ks post.
            ticker = pre @ c # ks @ post
            \<and> (\<forall>a\<in>set pre. (of_char a :: nat) < 128)
            \<and> 192 \<le> (of_char c :: nat)
            \<and> (\<forall>k\<in>set ks. 128 \<le> (of_char k :: nat) \<and> (of_char k :: nat) < 192)
            \<and> (post = [] \<or> (of_char (hd post) :: nat) < 128
                 \<or> 192 \<le> (of_char (hd post) :: nat))
            \<longrightarrow> upper table ticker = upper table pre @ table (c # ks) @ upper table post)"
proof -
  from assms have e: "get_stock_news table Ticker ticker =
      Inr (''No recent news found for '' @ upper table ticker @ ''.'')"
    by (auto simp add: get_stock_news_def)
  note u = upper_pins [of ticker table, THEN conjunct1]
    upper_pins [of ticker table, THEN conjunct2]
  show ?thesis
    by (intro conjI) (fact e u)+
qed

theorem no_news_message_witness:
  "get_stock_news sample_table acme_provider ''acme'' = Inr ''No recent news found for ACME.''
   \<and> get_stock_news sample_table unlisted_provider
       [CHR ''s'', CHR ''t'', CHR ''r'', CHR ''a'', CHR 0xC3, CHR 0x9F, CHR ''e''] =
     Inr ''No recent news found for STRASSE.''"
proof -
  have a: "acme_provider ''acme'' = Inr acme_stock" "news acme_stock = Inr (Some [])"
    by (simp_all add: acme_provider_def acme_stock_def)
  have u: "unlisted_provider t = Inr unlisted_stock" "news unlisted_stock = Inr None" for t
    by (simp_all add: unlisted_provider_def unlisted_stock_def)
  from no_news_message [where Ticker = acme_provider and ticker = "''acme''"
         and table = sample_table, OF a disjI2 [OF refl], THEN conjunct1]
       no_news_message [where Ticker = unlisted_provider and table = sample_table
         and ticker = "[CHR ''s'', CHR ''t'', CHR ''r'', CHR ''a'', CHR 0xC3, CHR 0x9F, CHR ''e'']",
         OF u disjI1 [OF refl], THEN conjunct1]
  show ?thesis
    by (simp only: upper_acme upper_strasse append.simps)
qed

lemma history_price_guarded: "history st Default = Inl err \<Longrightarrow> history_price st = PyNone"
  by (simp add: history_price_def)

lemma fallback_price_guarded: "fast_info st = Inl err \<Longrightarrow> fallback_price st = PyNone"
  by (simp add: fallback_price_def)

lemma company_name_guarded: "info st = Inl err \<Longrightarrow> company_name st = None"
  by (simp add: company_name_def)

lemma constructor_failure_leaves_tools:
  assumes "Ticker ticker = Inl err"
  shows "get_stock_price table Ticker ticker = Inl err"
    and "get_historical_stock_price Ticker ticker start_date end_date = Inl err"
    and "get_balance_sheet Ticker ticker = Inl err"
    and "get_stock_news table Ticker ticker = Inl err"
    and "render_stock_chart table Ticker savefig ticker period interval = Inl err"
  using assms
  by (simp_all add: get_stock_price_def get_historical_stock_price_def get_balance_sheet_def
        get_stock_news_def render_stock_chart_def)

text \<open>
  C10, as stated, fails: the call \<open>yf.Ticker(ticker)\<close> of line 41 stands before the
  first \<open>try\<close>, so with a provider whose constructor rejects the ticker
  \<open>get_stock_price\<close> raises.
\<close>

theorem get_stock_price_raises_counterexample:
  "get_stock_price sample_table rejecting_provider ''US0000000000'' =
     Inl (Exc ''ValueError'' ''Invalid ISIN number: US0000000000'')"
  by (simp add: get_stock_price_def rejecting_provider_def)

text \<open>
  C10, amended. Once \<open>yf.Ticker(ticker)\<close> has returned the stock object,
  \<open>get_stock_price\<close> returns a text and never raises, for every ticker and whatever the
  fetches of the price history, of \<open>fast_info\<close> and of the company texts do: an exception
  of each is caught and leaves \<open>None\<close>, and with no price from the history and none from
  \<open>fast_info\<close> the result is the no-data sentence. An exception raised by the constructor
  itself leaves the tool.
\<close>

theorem get_stock_price_total_once_constructed:
  "(Ticker ticker = Inr st \<longrightarrow>
      (\<exists>text. get_stock_price table Ticker ticker = Inr text)
      \<and> (\<forall>e. history st Default = Inl e \<longrightarrow> history_price st = PyNone)
      \<and> (\<forall>e. fast_info st = Inl e \<longrightarrow> fallback_price st = PyNone)
      \<and> (\<forall>e. info st = Inl e \<longrightarrow> company_name st = None)
      \<and> (history_price st = PyNone \<and> fallback_price st = PyNone \<longrightarrow>
            get_stock_price table Ticker ticker =
              Inr (''No price data available for '' @ upper table ticker @ ''.'')))
   \<and> (Ticker ticker = Inl err \<longrightarrow> get_stock_price table Ticker ticker = Inl err)"
proof (intro conjI impI allI)
  assume c: "Ticker ticker = Inr st"
  then show "\<exists>text. get_stock_price table Ticker ticker = Inr text"
    by (rule get_stock_price_returns)
  fix e
  show "history st Default = Inl e \<Longrightarrow> history_price st = PyNone"
    by (rule history_price_guarded)
  show "fast_info st = Inl e \<Longrightarrow> fallback_price st = PyNone"
    by (rule fallback_price_guarded)
  show "info st = Inl e \<Longrightarrow> company_name st = None"
    by (rule company_name_guarded)
next
  assume c: "Ticker ticker = Inr st"
    and n: "history_price st = PyNone \<and> fallback_price st = PyNone"
  from n have "resolve_price st = PyNone"
    by (simp add: resolve_price_def)
  with c show "get_stock_price table Ticker ticker =
      Inr (''No price data available for '' @ upper table ticker @ ''.'')"
    by (rule get_stock_price_no_price)
next
  assume "Ticker ticker = Inl err"
  then show "get_stock_price table Ticker ticker = Inl err"
    by (rule constructor_failure_leaves_tools)
qed

theorem get_stock_price_total_once_constructed_witness:
  "get_stock_price sample_table offline_provider ''acme'' = Inr ''No price data available for ACME.''
   \<and> get_stock_price sample_table rejecting_provider ''acme'' =
       Inl (Exc ''ValueError'' ''Invalid ISIN number: acme'')"
proof -
  have c: "offline_provider ''acme'' = Inr offline_stock"
    by (simp add: offline_provider_def)
  have f: "history offline_stock Default = Inl network_down"
    "fast_info offline_stock = Inl network_down"
    by (simp_all add: offline_stock_def)
  have r: "rejecting_provider ''acme'' = Inl (Exc ''ValueError'' ''Invalid ISIN number: acme'')"
    by (simp add: rejecting_provider_def)
  note t = get_stock_price_total_once_constructed
    [where Ticker = offline_provider and ticker = "''acme''" and st = offline_stock]
  from t c f have "get_stock_price sample_table offline_provider ''acme'' =
      Inr (''No price data available for '' @ upper sample_table ''acme'' @ ''.'')"
    by blast
  moreover from get_stock_price_total_once_constructed
    [where Ticker = rejecting_provider and ticker = "''acme''"
       and err = "Exc ''ValueError'' ''Invalid ISIN number: acme''"] r
  have "get_stock_price sample_table rejecting_provider ''acme'' =
      Inl (Exc ''ValueError'' ''Invalid ISIN number: acme'')"
    by blast
  ultimately show ?thesis
    by (simp add: upper_acme)
qed

text \<open>
  C2, as stated, fails: \<open>get_historical_stock_price\<close> has no handler, so when the fetch
  of the history raises, the tool raises.
\<close>

theorem tool_failure_escapes_counterexample:
  "get_historical_stock_price offline_provider ''ACME'' ''2024-01-01'' ''2024-02-01'' =
     Inl (Exc ''ConnectionError'' ''Network is unreachable'')"
  by (simp add: get_historical_stock_price_def offline_provider_def offline_stock_def
        network_down_def)

text \<open>
  C2, amended. Of the five tools only \<open>get_stock_price\<close> catches failures inside the
  tool: once the stock object is there it always returns a text. The other four have no
  handler: a failure of the fetch of the history in \<open>get_historical_stock_price\<close>, of
  the balance sheet in \<open>get_balance_sheet\<close>, of the news in \<open>get_stock_news\<close>, and of
  the history or of the rendering in \<open>render_stock_chart\<close> leaves the tool as the
  exception it is, and so does a failure of the constructor \<open>yf.Ticker\<close> in all five.
\<close>

theorem tool_failure_containment:
  "(Ticker ticker = Inr st \<longrightarrow>
      (\<exists>text. get_stock_price table Ticker ticker = Inr text)
      \<and> (history st (Between start_date end_date) = Inl err \<longrightarrow>
           get_historical_stock_price Ticker ticker start_date end_date = Inl err)
      \<and> (balance_sheet st = Inl err \<longrightarrow> get_balance_sheet Ticker ticker = Inl err)
      \<and> (news st = Inl err \<longrightarrow> get_stock_news table Ticker ticker = Inl err)
      \<and> (history st (Period period interval) = Inl err \<longrightarrow>
           render_stock_chart table Ticker savefig ticker period interval = Inl err)
      \<and> (history st (Period period interval) = Inr hist \<and> \<not> frame_empty hist
           \<and> getitem hist ''Close'' = Inr closes
           \<and> savefig \<lparr>title = upper table ticker @ '' close price'', xs = index hist, ys = closes\<rparr>
               = Inl err \<longrightarrow>
           render_stock_chart table Ticker savefig ticker period interval = Inl err))
   \<and> (Ticker ticker = Inl err \<longrightarrow>
        get_stock_price table Ticker ticker = Inl err
        \<and> get_historical_stock_price Ticker ticker start_date end_date = Inl err
        \<and> get_balance_sheet Ticker ticker = Inl err
        \<and> get_stock_news table Ticker ticker = Inl err
        \<and> render_stock_chart table Ticker savefig ticker period interval = Inl err)"
proof (intro conjI impI)
  assume c: "Ticker ticker = Inr st"
  then show "\<exists>text. get_stock_price table Ticker ticker = Inr text"
    by (rule get_stock_price_returns)
  from c show "history st (Between start_date end_date) = Inl err \<Longrightarrow>
      get_historical_stock_price Ticker ticker start_date end_date = Inl err"
    by (simp add: get_historical_stock_price_def)
  from c show "balance_sheet st = Inl err \<Longrightarrow> get_balance_sheet Ticker ticker = Inl err"
    by (simp add: get_balance_sheet_def)
  from c show "news st = Inl err \<Longrightarrow> get_stock_news table Ticker ticker = Inl err"
    by (simp add: get_stock_news_def)
  from c show "history st (Period period interval) = Inl err \<Longrightarrow>
      render_stock_chart table Ticker savefig ticker period interval = Inl err"
    by (simp add: render_stock_chart_def)
  from c show "history st (Period period interval) = Inr hist \<and> \<not> frame_empty hist
      \<and> getitem hist ''Close'' = Inr closes
      \<and> savefig \<lparr>title = upper table ticker @ '' close price'', xs = index hist, ys = closes\<rparr>
          = Inl err \<Longrightarrow>
      render_stock_chart table Ticker savefig ticker period interval = Inl err"
    by (simp add: render_stock_chart_def)
next
  assume "Ticker ticker = Inl err"
  then show "get_stock_price table Ticker ticker = Inl err"
    and "get_historical_stock_price Ticker ticker start_date end_date = Inl err"
    and "get_balance_sheet Ticker ticker = Inl err"
    and "get_stock_news table Ticker ticker = Inl err"
    and "render_stock_chart table Ticker savefig ticker period interval = Inl err"
    by (rule constructor_failure_leaves_tools)+
qed

theorem tool_failure_containment_witness:
  "(\<exists>text. get_stock_price sample_table offline_provider ''acme'' = Inr text)
   \<and> get_historical_stock_price offline_provider ''acme'' ''2024-01-01'' ''2024-02-01'' =
       Inl network_down
   \<and> get_balance_sheet offline_provider ''acme'' = Inl network_down
   \<and> get_stock_news sample_table offline_provider ''acme'' = Inl network_down
   \<and> render_stock_chart sample_table offline_provider acme_renderer ''acme'' ''6mo'' ''1d'' = Inl network_down"
proof -
  have c: "offline_provider ''acme'' = Inr offline_stock"
    by (simp add: offline_provider_def)
  have f: "history offline_stock (Between ''2024-01-01'' ''2024-02-01'') = Inl network_down"
    "balance_sheet offline_stock = Inl network_down"
    "news offline_stock = Inl network_down"
    "history offline_stock (Period ''6mo'' ''1d'') = Inl network_down"
    by (simp_all add: offline_stock_def)
  from tool_failure_containment
    [where Ticker = offline_provider and ticker = "''acme''" and st = offline_stock
       and err = network_down and start_date = "''2024-01-01''" and end_date = "''2024-02-01''"
       and period = "''6mo''" and interval = "''1d''" and savefig = acme_renderer] c f
  show ?thesis
    by blast
qed

end
